theory Spec2Isabelle
  imports Complex_Main
begin

section \<open>First-person movement of \<open>src/main.js\<close>\<close>

text \<open>
  The module keeps its state in globals: five input flags, the \<open>canJump\<close> flag, the
  vectors \<open>velocity\<close> and \<open>direction\<close>, and the camera owned by the pointer-lock
  controls. The model threads one record through the two key handlers and the frame
  callback. The code is embedded twice. In the first embedding JavaScript numbers are real
  numbers: it describes the arithmetic as long as every number stays finite, without
  rounding. The second embedding, further down, has the infinities and NaN of a double and
  shows what the frame callback does after an overflow.
\<close>

subsection \<open>Data\<close>

text \<open>
  The camera: its position, and an orientation that only the controls library reads and
  writes (the type \<open>'o\<close> is left open).
\<close>

record 'o camera =
  position_x :: real
  position_y :: real
  position_z :: real
  orientation :: 'o

record 'o state =
  moveForward :: bool
  moveBackward :: bool
  moveLeft :: bool
  moveRight :: bool
  isSprinting :: bool
  canJump :: bool
  velocity_x :: real
  velocity_y :: real
  velocity_z :: real
  direction_x :: real
  direction_y :: real
  direction_z :: real
  camera :: "'o camera"
  isLocked :: bool

definition speed :: real where
  "speed = 50.0"

definition sprintMultiplier :: real where
  "sprintMultiplier = 2.0"

definition gravity :: real where
  "gravity = 30.0"

definition jumpVelocity :: real where
  "jumpVelocity = 12"

text \<open>
  The state after the module body has run: \<open>camera.position.y = 2\<close>, every flag false,
  both vectors zero, the pointer not locked.
\<close>

definition initial :: "'o \<Rightarrow> 'o state" where
  "initial ori =
     \<lparr> moveForward = False, moveBackward = False, moveLeft = False, moveRight = False,
       isSprinting = False, canJump = False,
       velocity_x = 0, velocity_y = 0, velocity_z = 0,
       direction_x = 0, direction_y = 0, direction_z = 0,
       camera = \<lparr> position_x = 0, position_y = 2, position_z = 0, orientation = ori \<rparr>,
       isLocked = False \<rparr>"

subsection \<open>Keyboard handlers\<close>

definition onKeyDown :: "string \<Rightarrow> 'o state \<Rightarrow> 'o state" where
  "onKeyDown code s =
     (if code = ''KeyW'' then s\<lparr>moveForward := True\<rparr>
      else if code = ''KeyS'' then s\<lparr>moveBackward := True\<rparr>
      else if code = ''KeyA'' then s\<lparr>moveLeft := True\<rparr>
      else if code = ''KeyD'' then s\<lparr>moveRight := True\<rparr>
      else if code = ''ShiftLeft'' \<or> code = ''ShiftRight'' then s\<lparr>isSprinting := True\<rparr>
      else if code = ''Space'' then
        (if canJump s then s\<lparr>velocity_y := jumpVelocity, canJump := False\<rparr> else s)
      else s)"

definition onKeyUp :: "string \<Rightarrow> 'o state \<Rightarrow> 'o state" where
  "onKeyUp code s =
     (if code = ''KeyW'' then s\<lparr>moveForward := False\<rparr>
      else if code = ''KeyS'' then s\<lparr>moveBackward := False\<rparr>
      else if code = ''KeyA'' then s\<lparr>moveLeft := False\<rparr>
      else if code = ''KeyD'' then s\<lparr>moveRight := False\<rparr>
      else if code = ''ShiftLeft'' \<or> code = ''ShiftRight'' then s\<lparr>isSprinting := False\<rparr>
      else s)"

subsection \<open>The frame callback\<close>

text \<open>\<open>Number(b)\<close> of a boolean.\<close>

definition Number :: "bool \<Rightarrow> real" where
  "Number b = (if b then 1 else 0)"

text \<open>
  Modelled from the spec: \<open>Vector3.length\<close> and \<open>Vector3.normalize\<close> belong to the
  rendering library, which is not under \<open>src/\<close>. The spec asks for the zero vector
  when nothing is pressed and a vector of unit length otherwise; the library does this by
  multiplying every component by \<open>1 / (length || 1)\<close>.
\<close>

definition vec_length :: "real \<times> real \<times> real \<Rightarrow> real" where
  "vec_length v = (case v of (x, y, z) \<Rightarrow> sqrt (x * x + y * y + z * z))"

definition normalize :: "real \<times> real \<times> real \<Rightarrow> real \<times> real \<times> real" where
  "normalize v =
     (case v of (x, y, z) \<Rightarrow>
        let l = vec_length v;
            k = 1 / (if l = 0 then 1 else l)
        in (x * k, y * k, z * k))"

text \<open>
  Lines 159--179: friction on the two lateral components, gravity, the direction from the
  four movement flags, and the acceleration on each axis whose key pair is active.
\<close>

definition integrate_velocity :: "real \<Rightarrow> 'o state \<Rightarrow> 'o state" where
  "integrate_velocity delta s =
     (let vx1 = velocity_x s - velocity_x s * 10.0 * delta;
          vz1 = velocity_z s - velocity_z s * 10.0 * delta;
          vy1 = velocity_y s - gravity * delta;
          currentSpeed = (if isSprinting s then speed * sprintMultiplier else speed);
          dz0 = Number (moveForward s) - Number (moveBackward s);
          dx0 = Number (moveRight s) - Number (moveLeft s);
          d = normalize (dx0, direction_y s, dz0);
          dx = fst d; dy = fst (snd d); dz = snd (snd d);
          vz2 = (if moveForward s \<or> moveBackward s then vz1 - dz * currentSpeed * delta else vz1);
          vx2 = (if moveLeft s \<or> moveRight s then vx1 - dx * currentSpeed * delta else vx1)
      in s\<lparr>velocity_x := vx2, velocity_y := vy1, velocity_z := vz2,
           direction_x := dx, direction_y := dy, direction_z := dz\<rparr>)"

text \<open>
  Lines 182--186. \<open>controls.moveRight\<close> and \<open>controls.moveForward\<close> are primitives of
  the controls library; they are parameters \<open>mr\<close> and \<open>mf\<close> of the model, applied in
  the order of the source. The vertical position is then changed directly. The distances
  are real numbers here; what happens when an overflowed velocity makes a distance
  infinite is the subject of \<open>move_camera_d\<close> in the second embedding.
\<close>

definition move_camera ::
  "(real \<Rightarrow> 'o camera \<Rightarrow> 'o camera) \<Rightarrow> (real \<Rightarrow> 'o camera \<Rightarrow> 'o camera) \<Rightarrow>
   real \<Rightarrow> 'o state \<Rightarrow> 'o state" where
  "move_camera mr mf delta s =
     (let c1 = mr (- velocity_x s * delta) (camera s);
          c2 = mf (- velocity_z s * delta) c1
      in s\<lparr>camera := c2\<lparr>position_y := position_y c2 + velocity_y s * delta\<rparr>\<rparr>)"

text \<open>Lines 189--193: the collision with the ground.\<close>

definition ground_clamp :: "'o state \<Rightarrow> 'o state" where
  "ground_clamp s =
     (if position_y (camera s) < 2
      then s\<lparr>velocity_y := 0, camera := (camera s)\<lparr>position_y := 2\<rparr>, canJump := True\<rparr>
      else s)"

text \<open>
  One call of \<open>animate\<close> with \<open>clock.getDelta() = delta\<close>. Requesting the next frame and
  rendering do not touch the modelled state.
\<close>

definition animate ::
  "(real \<Rightarrow> 'o camera \<Rightarrow> 'o camera) \<Rightarrow> (real \<Rightarrow> 'o camera \<Rightarrow> 'o camera) \<Rightarrow>
   real \<Rightarrow> 'o state \<Rightarrow> 'o state" where
  "animate mr mf delta s =
     (if isLocked s then ground_clamp (move_camera mr mf delta (integrate_velocity delta s))
      else s)"

subsection \<open>Events and runs\<close>

text \<open>
  What the page can observe: key events, a change of the pointer-lock state (after a click
  the browser grants the lock; Escape releases it), pointer movement, which the controls
  turn into a new camera orientation while the lock is held, and a display frame with its
  elapsed time.
\<close>

datatype 'o event =
  KeyDown string
| KeyUp string
| LockChange bool
| MouseMove 'o
| Frame real

fun step ::
  "(real \<Rightarrow> 'o camera \<Rightarrow> 'o camera) \<Rightarrow> (real \<Rightarrow> 'o camera \<Rightarrow> 'o camera) \<Rightarrow>
   'o state \<Rightarrow> 'o event \<Rightarrow> 'o state" where
  "step mr mf s (KeyDown code) = onKeyDown code s"
| "step mr mf s (KeyUp code) = onKeyUp code s"
| "step mr mf s (LockChange b) = s\<lparr>isLocked := b\<rparr>"
| "step mr mf s (MouseMove ori) =
     (if isLocked s then s\<lparr>camera := (camera s)\<lparr>orientation := ori\<rparr>\<rparr> else s)"
| "step mr mf s (Frame delta) = animate mr mf delta s"

definition run ::
  "(real \<Rightarrow> 'o camera \<Rightarrow> 'o camera) \<Rightarrow> (real \<Rightarrow> 'o camera \<Rightarrow> 'o camera) \<Rightarrow>
   'o event list \<Rightarrow> 'o state \<Rightarrow> 'o state" where
  "run mr mf evs s = foldl (step mr mf) s evs"

text \<open>The clock never reports a negative elapsed time.\<close>

fun nonneg_frame :: "'o event \<Rightarrow> bool" where
  "nonneg_frame (Frame delta) = (0 \<le> delta)"
| "nonneg_frame _ = True"

text \<open>
  Modelled from the spec: the two movement primitives of the controls library (not under
  \<open>src/\<close>) translate the camera along its right vector and along the horizontal
  direction it faces. Here the orientation is the horizontal right vector \<open>(rx, rz)\<close>;
  the forward direction is \<open>up \<times> right = (rz, 0, - rx)\<close>.
\<close>

definition controls_moveRight :: "real \<Rightarrow> (real \<times> real) camera \<Rightarrow> (real \<times> real) camera" where
  "controls_moveRight amount c =
     c\<lparr>position_x := position_x c + fst (orientation c) * amount,
       position_z := position_z c + snd (orientation c) * amount\<rparr>"

definition controls_moveForward :: "real \<Rightarrow> (real \<times> real) camera \<Rightarrow> (real \<times> real) camera" where
  "controls_moveForward amount c =
     c\<lparr>position_x := position_x c + snd (orientation c) * amount,
       position_z := position_z c - fst (orientation c) * amount\<rparr>"

subsection \<open>Notions used by the properties\<close>

text \<open>
  The vertical position that line 189 compares with 2: the camera after the two lateral
  moves and the vertical update, before the clamp.
\<close>

definition unclamped_y ::
  "(real \<Rightarrow> 'o camera \<Rightarrow> 'o camera) \<Rightarrow> (real \<Rightarrow> 'o camera \<Rightarrow> 'o camera) \<Rightarrow>
   real \<Rightarrow> 'o state \<Rightarrow> real" where
  "unclamped_y mr mf delta s =
     position_y (camera (move_camera mr mf delta (integrate_velocity delta s)))"

text \<open>An event lands when it is a frame, taken while locked, whose clamp branch runs.\<close>

fun lands ::
  "(real \<Rightarrow> 'o camera \<Rightarrow> 'o camera) \<Rightarrow> (real \<Rightarrow> 'o camera \<Rightarrow> 'o camera) \<Rightarrow>
   'o state \<Rightarrow> 'o event \<Rightarrow> bool" where
  "lands mr mf s (Frame delta) = (isLocked s \<and> unclamped_y mr mf delta s < 2)"
| "lands mr mf s _ = False"

text \<open>A run without ground contact: none of its events lands.\<close>

fun airborne ::
  "(real \<Rightarrow> 'o camera \<Rightarrow> 'o camera) \<Rightarrow> (real \<Rightarrow> 'o camera \<Rightarrow> 'o camera) \<Rightarrow>
   'o state \<Rightarrow> 'o event list \<Rightarrow> bool" where
  "airborne mr mf s [] = True"
| "airborne mr mf s (e # es) = (\<not> lands mr mf s e \<and> airborne mr mf (step mr mf s e) es)"

text \<open>A lateral primitive of the controls leaves the height of the camera alone.\<close>

definition keeps_height :: "(real \<Rightarrow> 'o camera \<Rightarrow> 'o camera) \<Rightarrow> bool" where
  "keeps_height m = (\<forall>a c. position_y (m a c) = position_y c)"

definition grounded_inv :: "'o state \<Rightarrow> bool" where
  "grounded_inv s = (canJump s \<longrightarrow> position_y (camera s) = 2 \<and> velocity_y s \<le> 0)"


definition released :: "'o state \<Rightarrow> bool" where
  "released s = (\<not> moveForward s \<and> \<not> moveBackward s \<and> \<not> moveLeft s \<and> \<not> moveRight s)"



text \<open>
  The two raw direction components of lines 169 and 170, and the length of the direction
  seen as a vector of the ground plane.
\<close>

definition flag_x :: "'o state \<Rightarrow> real" where
  "flag_x s = Number (moveRight s) - Number (moveLeft s)"

definition flag_z :: "'o state \<Rightarrow> real" where
  "flag_z s = Number (moveForward s) - Number (moveBackward s)"

definition direction_length2 :: "'o state \<Rightarrow> real" where
  "direction_length2 s = sqrt (direction_x s * direction_x s + direction_z s * direction_z s)"

text \<open>
  The reference velocity update, written after the specification (Motion Integrator,
  steps 1 to 5) and not after the code: a two-dimensional direction, zero when no relevant
  flag is set and of unit length otherwise; an effective speed of 50, doubled while
  sprinting; damping at rate 10, gravity 30, and the acceleration added on each axis whose
  flag pair is active. The result is the triple of the x, y and z components.
\<close>

definition spec_direction :: "'o state \<Rightarrow> real \<times> real" where
  "spec_direction s =
     (let x = (if moveRight s then 1 else 0) - (if moveLeft s then 1 else 0);
          z = (if moveForward s then 1 else 0) - (if moveBackward s then 1 else 0);
          n = sqrt (x\<^sup>2 + z\<^sup>2)
      in if n = 0 then (0, 0) else (x / n, z / n))"

definition spec_velocity :: "real \<Rightarrow> 'o state \<Rightarrow> real \<times> real \<times> real" where
  "spec_velocity dt s =
     (let effectiveSpeed = 50 * (if isSprinting s then 2 else 1);
          dir = spec_direction s;
          vx = velocity_x s - velocity_x s * 10 * dt
                 + (if moveLeft s \<or> moveRight s then - fst dir * effectiveSpeed * dt else 0);
          vy = velocity_y s - 30 * dt;
          vz = velocity_z s - velocity_z s * 10 * dt
                 + (if moveForward s \<or> moveBackward s then - snd dir * effectiveSpeed * dt else 0)
      in (vx, vy, vz))"

subsection \<open>Concrete states\<close>

text \<open>
  Runs from the initial state, the camera facing down the negative z axis: the pointer
  locked; the first locked frame, which lands; the lock released after it; a jump followed
  by a frame of 6/35 s; and a tap on the D key.
\<close>

definition engaged :: "(real \<times> real) state" where
  "engaged = run controls_moveRight controls_moveForward [LockChange True] (initial (1, 0))"

definition landed :: "(real \<times> real) state" where
  "landed = run controls_moveRight controls_moveForward [Frame (1 / 2)] engaged"

definition paused :: "(real \<times> real) state" where
  "paused = run controls_moveRight controls_moveForward [LockChange False] landed"

definition rising :: "(real \<times> real) state" where
  "rising = run controls_moveRight controls_moveForward
     [KeyDown ''Space'', Frame (6 / 35)] landed"

definition strafed :: "(real \<times> real) state" where
  "strafed = run controls_moveRight controls_moveForward
     [KeyDown ''KeyD'', Frame (1 / 50), KeyUp ''KeyD''] engaged"

text \<open>
  With the pointer locked: W and D held; W and S held, which cancel; W held with Shift.
\<close>

definition diagonal :: "(real \<times> real) state" where
  "diagonal = run controls_moveRight controls_moveForward
     [KeyDown ''KeyW'', KeyDown ''KeyD''] engaged"

definition opposed :: "(real \<times> real) state" where
  "opposed = run controls_moveRight controls_moveForward
     [KeyDown ''KeyW'', KeyDown ''KeyS''] engaged"

definition sprinting :: "(real \<times> real) state" where
  "sprinting = run controls_moveRight controls_moveForward
     [KeyDown ''KeyW'', KeyDown ''ShiftLeft''] engaged"

subsection \<open>The same code over doubles with infinities and NaN\<close>

text \<open>
  The real numbers above cannot overflow. To see what the frame callback does once a
  number leaves the range of a double, the callback is embedded a second time, with the
  same control flow and the same order of operations, over a number type that has the
  three special values of a double. A finite result is kept exact (rounding to 53 bits and
  the sign of zero are not modelled); a result of magnitude \<open>2 ^ 1024\<close> or more is
  infinite. The names of this second embedding end in \<open>_d\<close>.
\<close>

datatype double = Fin real | PInf | NInf | NaN

definition overflow_bound :: real where
  "overflow_bound = 2 ^ 1024"

definition overflow :: "real \<Rightarrow> double" where
  "overflow r =
     (if overflow_bound \<le> r then PInf else if r \<le> - overflow_bound then NInf else Fin r)"





























section \<open>Properties\<close>

lemmas model_defs = run_def animate_def integrate_velocity_def move_camera_def ground_clamp_def
  normalize_def vec_length_def Number_def controls_moveRight_def controls_moveForward_def
  initial_def onKeyDown_def onKeyUp_def speed_def sprintMultiplier_def gravity_def
  jumpVelocity_def unclamped_y_def

lemmas concrete_defs = engaged_def landed_def paused_def rising_def strafed_def
  diagonal_def opposed_def sprinting_def

subsection \<open>How each stage of a frame changes the state\<close>

lemma canJump_integrate_velocity [simp]: "canJump (integrate_velocity delta s) = canJump s"
  by (simp add: integrate_velocity_def Let_def)

lemma velocity_y_integrate [simp]:
  "velocity_y (integrate_velocity delta s) = velocity_y s - 30 * delta"
  by (simp add: integrate_velocity_def Let_def gravity_def)

lemma camera_integrate [simp]: "camera (integrate_velocity delta s) = camera s"
  by (simp add: integrate_velocity_def Let_def)

lemma isLocked_integrate [simp]: "isLocked (integrate_velocity delta s) = isLocked s"
  by (simp add: integrate_velocity_def Let_def)

lemma canJump_move_camera [simp]: "canJump (move_camera mr mf delta s) = canJump s"
  by (simp add: move_camera_def Let_def)

lemma velocity_move_camera [simp]:
  "velocity_x (move_camera mr mf delta s) = velocity_x s"
  "velocity_y (move_camera mr mf delta s) = velocity_y s"
  "velocity_z (move_camera mr mf delta s) = velocity_z s"
  by (simp_all add: move_camera_def Let_def)

lemma lateral_ground_clamp [simp]:
  "velocity_x (ground_clamp s) = velocity_x s" "velocity_z (ground_clamp s) = velocity_z s"
  by (simp_all add: ground_clamp_def)

lemma canJump_onKeyUp [simp]: "canJump (onKeyUp code s) = canJump s"
  by (simp add: onKeyUp_def)

lemma canJump_onKeyDown: "canJump (onKeyDown code s) \<Longrightarrow> canJump s"
  by (simp add: onKeyDown_def split: if_splits)

lemma camera_onKeyDown [simp]: "camera (onKeyDown code s) = camera s"
  by (simp add: onKeyDown_def)

lemma camera_onKeyUp [simp]: "camera (onKeyUp code s) = camera s"
  by (simp add: onKeyUp_def)

lemma animate_locked:
  "isLocked s \<Longrightarrow>
     position_y (camera (animate mr mf delta s)) = max 2 (unclamped_y mr mf delta s)
     \<and> velocity_y (animate mr mf delta s)
         = (if unclamped_y mr mf delta s < 2 then 0 else velocity_y s - 30 * delta)
     \<and> canJump (animate mr mf delta s) = (unclamped_y mr mf delta s < 2 \<or> canJump s)"
  by (simp add: animate_def ground_clamp_def unclamped_y_def)

lemma lateral_animate:
  "isLocked s \<Longrightarrow> velocity_x (animate mr mf delta s) = velocity_x (integrate_velocity delta s)"
  "isLocked s \<Longrightarrow> velocity_z (animate mr mf delta s) = velocity_z (integrate_velocity delta s)"
  by (simp_all add: animate_def)

lemma flags_animate [simp]:
  "released (animate mr mf delta s) = released s"
  "isLocked (animate mr mf delta s) = isLocked s"
  by (simp_all add: animate_def ground_clamp_def move_camera_def integrate_velocity_def
      released_def Let_def)

lemma unclamped_y_keeps:
  "keeps_height mr \<Longrightarrow> keeps_height mf \<Longrightarrow>
     unclamped_y mr mf delta s = position_y (camera s) + (velocity_y s - 30 * delta) * delta"
  by (simp add: unclamped_y_def move_camera_def Let_def keeps_height_def)

lemma controls_keep_height:
  "keeps_height controls_moveRight" "keeps_height controls_moveForward"
  by (simp_all add: keeps_height_def controls_moveRight_def controls_moveForward_def)

subsection \<open>The ground\<close>

text \<open>
  C10. The clamp is strict. In a locked frame whose vertical update leaves the camera at
  height 2 or above, the clamp branch is skipped: the vertical velocity keeps the value
  gravity gave it, the height is the updated one and \<open>canJump\<close> is what it was. The flag
  can only turn true in a frame whose updated height is strictly below 2.
\<close>

theorem clamp_is_strict:
  "isLocked s \<Longrightarrow>
     (2 \<le> unclamped_y mr mf delta s \<longrightarrow>
        velocity_y (animate mr mf delta s) = velocity_y s - 30 * delta
        \<and> position_y (camera (animate mr mf delta s)) = unclamped_y mr mf delta s
        \<and> canJump (animate mr mf delta s) = canJump s)
     \<and> (\<not> canJump s \<and> canJump (animate mr mf delta s) \<longrightarrow> unclamped_y mr mf delta s < 2)"
  using animate_locked [of s mr mf delta] by auto

theorem clamp_is_strict_witness:
  "isLocked rising \<and> \<not> canJump rising
   \<and> unclamped_y controls_moveRight controls_moveForward (12 / 35) rising = 2
   \<and> velocity_y (animate controls_moveRight controls_moveForward (12 / 35) rising) = - 24 / 7
   \<and> position_y (camera (animate controls_moveRight controls_moveForward (12 / 35) rising)) = 2
   \<and> \<not> canJump (animate controls_moveRight controls_moveForward (12 / 35) rising)
   \<and> isLocked engaged \<and> \<not> canJump engaged
   \<and> canJump (animate controls_moveRight controls_moveForward (1 / 2) engaged)
   \<and> unclamped_y controls_moveRight controls_moveForward (1 / 2) engaged < 2"
  using clamp_is_strict [of rising controls_moveRight controls_moveForward "12 / 35"]
    clamp_is_strict [of engaged controls_moveRight controls_moveForward "1 / 2"]
  by (simp add: concrete_defs model_defs Let_def)

subsection \<open>Jumping\<close>

lemma step_keeps_airborne:
  "\<not> canJump s \<Longrightarrow> \<not> lands mr mf s e \<Longrightarrow> \<not> canJump (step mr mf s e)"
proof (cases e)
  case (KeyDown code)
  assume "\<not> canJump s"
  then show ?thesis using KeyDown by (auto dest: canJump_onKeyDown)
next
  case (Frame delta)
  assume "\<not> canJump s" "\<not> lands mr mf s e"
  then show ?thesis using Frame animate_locked [of s mr mf delta]
    by (cases "isLocked s") (simp_all add: animate_def)
qed simp_all

lemma run_keeps_airborne:
  "\<not> canJump s \<Longrightarrow> airborne mr mf s evs \<Longrightarrow> \<not> canJump (run mr mf evs s)"
  unfolding run_def
  by (induction evs arbitrary: s) (auto dest: step_keeps_airborne)

text \<open>
  C2, as stated, fails for a held key. The handler does not tell the first key-down of
  Space from its repeats: with Space held and never released, the jump started on the
  ground is followed, three frames of a quarter of a second later, by a landing, and the
  next key-down of the held key jumps again.
\<close>

theorem held_space_jumps_again_counterexample:
  "canJump landed
   \<and> velocity_y (run controls_moveRight controls_moveForward [KeyDown ''Space''] landed) = 12
   \<and> canJump (run controls_moveRight controls_moveForward
        [KeyDown ''Space'', Frame (1 / 4), KeyDown ''Space'', Frame (1 / 4),
         KeyDown ''Space'', Frame (1 / 4)] landed)
   \<and> velocity_y (run controls_moveRight controls_moveForward
        [KeyDown ''Space'', Frame (1 / 4), KeyDown ''Space'', Frame (1 / 4),
         KeyDown ''Space'', Frame (1 / 4)] landed) = 0
   \<and> velocity_y (run controls_moveRight controls_moveForward
        [KeyDown ''Space'', Frame (1 / 4), KeyDown ''Space'', Frame (1 / 4),
         KeyDown ''Space'', Frame (1 / 4), KeyDown ''Space''] landed) = 12
   \<and> \<not> canJump (run controls_moveRight controls_moveForward
        [KeyDown ''Space'', Frame (1 / 4), KeyDown ''Space'', Frame (1 / 4),
         KeyDown ''Space'', Frame (1 / 4), KeyDown ''Space''] landed)"
  by (simp add: concrete_defs model_defs Let_def)

text \<open>
  C2, amended. A Space key-down with \<open>canJump\<close> set changes exactly two things: the
  vertical velocity becomes 12 and the flag is cleared. With the flag clear it changes
  nothing. Hence a second Space key-down right after the first does nothing, and after a
  jump, as long as no frame lands, the flag stays clear and any further Space key-down (the
  repeats of a held key included) does nothing: one jump per ground contact. A key-down
  after a landing is a key-down with the flag set, and jumps.
\<close>

theorem space_jumps_once_per_landing:
  "(canJump s \<longrightarrow>
      onKeyDown ''Space'' s = s\<lparr>velocity_y := 12, canJump := False\<rparr>)
   \<and> (\<not> canJump s \<longrightarrow> onKeyDown ''Space'' s = s)
   \<and> onKeyDown ''Space'' (onKeyDown ''Space'' s) = onKeyDown ''Space'' s
   \<and> (airborne mr mf (onKeyDown ''Space'' s) evs \<longrightarrow>
        \<not> canJump (run mr mf evs (onKeyDown ''Space'' s))
        \<and> onKeyDown ''Space'' (run mr mf evs (onKeyDown ''Space'' s))
            = run mr mf evs (onKeyDown ''Space'' s))"
proof -
  let ?j = "onKeyDown ''Space'' s"
  have nj: "\<not> canJump ?j" by (simp add: onKeyDown_def)
  have a: "canJump s \<longrightarrow> ?j = s\<lparr>velocity_y := 12, canJump := False\<rparr>"
    by (simp add: onKeyDown_def jumpVelocity_def)
  have b: "\<not> canJump s \<longrightarrow> ?j = s" by (simp add: onKeyDown_def)
  have c: "onKeyDown ''Space'' ?j = ?j" using nj by (simp add: onKeyDown_def)
  have d: "airborne mr mf ?j evs \<longrightarrow>
        \<not> canJump (run mr mf evs ?j) \<and> onKeyDown ''Space'' (run mr mf evs ?j) = run mr mf evs ?j"
  proof
    assume "airborne mr mf ?j evs"
    with nj have "\<not> canJump (run mr mf evs ?j)" by (rule run_keeps_airborne)
    then show "\<not> canJump (run mr mf evs ?j)
        \<and> onKeyDown ''Space'' (run mr mf evs ?j) = run mr mf evs ?j"
      by (simp add: onKeyDown_def)
  qed
  from a b c d show ?thesis by blast
qed

theorem space_jumps_once_per_landing_witness:
  "canJump landed
   \<and> velocity_y (onKeyDown ''Space'' landed) = 12
   \<and> \<not> canJump (onKeyDown ''Space'' landed)
   \<and> airborne controls_moveRight controls_moveForward (onKeyDown ''Space'' landed)
        [KeyDown ''Space'', Frame (1 / 10), KeyDown ''Space'']
   \<and> velocity_y (run controls_moveRight controls_moveForward
        [KeyDown ''Space'', Frame (1 / 10), KeyDown ''Space''] (onKeyDown ''Space'' landed)) = 9
   \<and> \<not> canJump (run controls_moveRight controls_moveForward
        [KeyDown ''Space'', Frame (1 / 10), KeyDown ''Space''] (onKeyDown ''Space'' landed))
   \<and> \<not> canJump engaged \<and> onKeyDown ''Space'' engaged = engaged"
  using space_jumps_once_per_landing [of landed controls_moveRight controls_moveForward
      "[KeyDown ''Space'', Frame (1 / 10), KeyDown ''Space'']"]
    space_jumps_once_per_landing [of engaged controls_moveRight controls_moveForward "[]"]
  by (simp add: concrete_defs model_defs Let_def)

text \<open>
  C9. The jump is not gated by the pointer lock. With the pointer unlocked and
  \<open>canJump\<close> set, a Space key-down still sets the vertical velocity to 12 and clears
  the flag; the lock state is untouched, and a frame taken in that state changes nothing,
  so the jump waits for the lock to come back.
\<close>

theorem jump_while_unlocked:
  "\<not> isLocked s \<Longrightarrow> canJump s \<Longrightarrow>
     velocity_y (onKeyDown ''Space'' s) = 12
     \<and> \<not> canJump (onKeyDown ''Space'' s)
     \<and> \<not> isLocked (onKeyDown ''Space'' s)
     \<and> animate mr mf delta (onKeyDown ''Space'' s) = onKeyDown ''Space'' s"
  by (simp add: animate_def onKeyDown_def jumpVelocity_def)

theorem jump_while_unlocked_witness:
  "\<not> isLocked paused \<and> canJump paused
   \<and> velocity_y (onKeyDown ''Space'' paused) = 12
   \<and> \<not> canJump (onKeyDown ''Space'' paused)
   \<and> velocity_y (run controls_moveRight controls_moveForward
        [KeyDown ''Space'', Frame (1 / 60)] paused) = 12
   \<and> position_y (camera (run controls_moveRight controls_moveForward
        [KeyDown ''Space'', Frame (1 / 60)] paused)) = 2"
  using jump_while_unlocked [of paused controls_moveRight controls_moveForward "1 / 60"]
  by (simp add: concrete_defs model_defs Let_def)

subsection \<open>The pointer lock as a gate\<close>

text \<open>
  C3. A frame taken while the pointer is not locked returns the state as it was: velocity,
  camera position and \<open>canJump\<close> included. The key handlers do not look at the lock, so
  in such a state each movement and sprint key still sets its flag on key-down and clears
  it on key-up.
\<close>

theorem unlocked_frame_is_paused:
  "\<not> isLocked s \<Longrightarrow>
     animate mr mf delta s = s
     \<and> moveForward (onKeyDown ''KeyW'' s) \<and> moveBackward (onKeyDown ''KeyS'' s)
     \<and> moveLeft (onKeyDown ''KeyA'' s) \<and> moveRight (onKeyDown ''KeyD'' s)
     \<and> isSprinting (onKeyDown ''ShiftLeft'' s) \<and> isSprinting (onKeyDown ''ShiftRight'' s)
     \<and> \<not> moveForward (onKeyUp ''KeyW'' s) \<and> \<not> moveBackward (onKeyUp ''KeyS'' s)
     \<and> \<not> moveLeft (onKeyUp ''KeyA'' s) \<and> \<not> moveRight (onKeyUp ''KeyD'' s)
     \<and> \<not> isSprinting (onKeyUp ''ShiftLeft'' s) \<and> \<not> isSprinting (onKeyUp ''ShiftRight'' s)"
  by (simp add: animate_def onKeyDown_def onKeyUp_def)

theorem unlocked_frame_is_paused_witness:
  "\<not> isLocked (onKeyDown ''KeyW'' paused)
   \<and> moveForward (onKeyDown ''KeyW'' paused)
   \<and> animate controls_moveRight controls_moveForward (1 / 60) (onKeyDown ''KeyW'' paused)
       = onKeyDown ''KeyW'' paused
   \<and> \<not> moveForward (onKeyUp ''KeyW'' (onKeyDown ''KeyW'' paused))"
  using unlocked_frame_is_paused
      [of "onKeyDown ''KeyW'' paused" controls_moveRight controls_moveForward "1 / 60"]
  by (simp add: concrete_defs model_defs Let_def)

subsection \<open>The jump flag and the ground\<close>

lemma animate_grounded_inv:
  assumes "keeps_height mr" "keeps_height mf" "0 \<le> delta" "grounded_inv s"
  shows "grounded_inv (animate mr mf delta s)"
proof (cases "isLocked s")
  case False
  then show ?thesis using assms(4) by (simp add: animate_def)
next
  case True
  note u = unclamped_y_keeps [OF assms(1,2), of delta s]
  show ?thesis
  proof (cases "unclamped_y mr mf delta s < 2")
    case True
    with \<open>isLocked s\<close> show ?thesis using animate_locked [of s mr mf delta]
      by (simp add: grounded_inv_def)
  next
    case False
    show ?thesis unfolding grounded_inv_def
    proof
      assume "canJump (animate mr mf delta s)"
      with False \<open>isLocked s\<close> have cj: "canJump s"
        using animate_locked [of s mr mf delta] by simp
      with assms(4) have y: "position_y (camera s) = 2" and v: "velocity_y s \<le> 0"
        by (simp_all add: grounded_inv_def)
      have v': "velocity_y s - 30 * delta \<le> 0" using v assms(3) by simp
      then have "(velocity_y s - 30 * delta) * delta \<le> 0"
        using assms(3) by (simp add: mult_nonpos_nonneg)
      with False u y have "unclamped_y mr mf delta s = 2" by simp
      with \<open>isLocked s\<close> v' show "position_y (camera (animate mr mf delta s)) = 2
          \<and> velocity_y (animate mr mf delta s) \<le> 0"
        using animate_locked [of s mr mf delta] by simp
    qed
  qed
qed

lemma step_grounded_inv:
  assumes "keeps_height mr" "keeps_height mf" "nonneg_frame e" "grounded_inv s"
  shows "grounded_inv (step mr mf s e)"
proof (cases e)
  case (KeyDown code)
  then show ?thesis using assms(4)
    by (auto simp: grounded_inv_def onKeyDown_def split: if_splits)
next
  case (KeyUp code)
  then show ?thesis using assms(4) by (auto simp: grounded_inv_def onKeyUp_def)
next
  case (LockChange b)
  then show ?thesis using assms(4) by (simp add: grounded_inv_def)
next
  case (MouseMove ori)
  then show ?thesis using assms(4) by (simp add: grounded_inv_def)
next
  case (Frame delta)
  then show ?thesis using assms by (simp add: animate_grounded_inv)
qed

lemma run_grounded_inv:
  "keeps_height mr \<Longrightarrow> keeps_height mf \<Longrightarrow> list_all nonneg_frame evs \<Longrightarrow> grounded_inv s \<Longrightarrow>
     grounded_inv (run mr mf evs s)"
  unfolding run_def
  by (induction evs arbitrary: s) (simp_all add: step_grounded_inv)

text \<open>
  C4, as stated, fails already in the initial state: the camera starts at height 2 with
  \<open>canJump\<close> false.
\<close>

theorem canJump_iff_ground_counterexample:
  "\<not> (canJump (initial (1 :: real, 0 :: real))
        \<longleftrightarrow> position_y (camera (initial (1 :: real, 0 :: real))) = 2)"
  by (simp add: initial_def)

text \<open>
  C4, amended. One direction holds. When the lateral primitives of the controls leave the
  height alone and no frame time is negative, then in every state reached from the initial
  one, \<open>canJump\<close> set implies that the camera is at height exactly 2.
\<close>

theorem canJump_implies_on_ground:
  assumes "keeps_height mr" "keeps_height mf" "list_all nonneg_frame evs"
    and "canJump (run mr mf evs (initial ori))"
  shows "position_y (camera (run mr mf evs (initial ori))) = 2"
proof -
  have "grounded_inv (initial ori)" by (simp add: grounded_inv_def initial_def)
  with assms(1-3) have "grounded_inv (run mr mf evs (initial ori))" by (rule run_grounded_inv)
  with assms(4) show ?thesis by (simp add: grounded_inv_def)
qed

theorem canJump_implies_on_ground_witness:
  "keeps_height controls_moveRight \<and> keeps_height controls_moveForward
   \<and> list_all nonneg_frame [LockChange True, Frame (1 / 2), KeyDown ''KeyW'', Frame 0]
   \<and> canJump (run controls_moveRight controls_moveForward
        [LockChange True, Frame (1 / 2), KeyDown ''KeyW'', Frame 0] (initial (1, 0)))
   \<and> position_y (camera (run controls_moveRight controls_moveForward
        [LockChange True, Frame (1 / 2), KeyDown ''KeyW'', Frame 0] (initial (1, 0)))) = 2"
proof -
  have c: "canJump (run controls_moveRight controls_moveForward
        [LockChange True, Frame (1 / 2), KeyDown ''KeyW'', Frame 0] (initial (1, 0)))"
    by (simp add: model_defs Let_def)
  have f: "list_all nonneg_frame [LockChange True, Frame (1 / 2), KeyDown ''KeyW'', Frame 0]"
    by simp
  from canJump_implies_on_ground [OF controls_keep_height f c] c f controls_keep_height
  show ?thesis by blast
qed

subsection \<open>Friction\<close>

















subsection \<open>The input direction and the velocity update\<close>

lemma normalize_flat:
  "normalize (x, 0, z) =
     (if x = 0 \<and> z = 0 then (0, 0, 0)
      else (x / sqrt (x * x + z * z), 0, z / sqrt (x * x + z * z)))"
proof -
  have "sqrt (x * x + z * z) = 0 \<longleftrightarrow> x = 0 \<and> z = 0"
    using sum_squares_eq_zero_iff [of x z] by simp
  then show ?thesis by (simp add: normalize_def vec_length_def Let_def)
qed

lemma unit_after_division:
  fixes x z :: real
  assumes "x \<noteq> 0 \<or> z \<noteq> 0"
  shows "sqrt ((x / sqrt (x * x + z * z)) * (x / sqrt (x * x + z * z))
             + (z / sqrt (x * x + z * z)) * (z / sqrt (x * x + z * z))) = 1"
proof -
  let ?q = "x * x + z * z"
  have q: "0 < ?q" using assms sum_squares_gt_zero_iff [of x z] by simp
  then have r: "sqrt ?q * sqrt ?q = ?q" by simp
  have "(x / sqrt ?q) * (x / sqrt ?q) + (z / sqrt ?q) * (z / sqrt ?q)
          = ?q / (sqrt ?q * sqrt ?q)"
    by (simp only: times_divide_times_eq add_divide_distrib)
  also have "\<dots> = ?q / ?q" by (simp only: r)
  also have "\<dots> = 1" using assms by simp
  finally show ?thesis by simp
qed

lemma direction_integrate:
  "direction_y s = 0 \<Longrightarrow>
     (direction_x (integrate_velocity delta s), direction_y (integrate_velocity delta s),
      direction_z (integrate_velocity delta s)) = normalize (flag_x s, 0, flag_z s)"
  by (simp add: integrate_velocity_def Let_def flag_x_def flag_z_def)

lemma direction_animate:
  "isLocked s \<Longrightarrow>
     direction_x (animate mr mf delta s) = direction_x (integrate_velocity delta s)
     \<and> direction_y (animate mr mf delta s) = direction_y (integrate_velocity delta s)
     \<and> direction_z (animate mr mf delta s) = direction_z (integrate_velocity delta s)"
  by (simp add: animate_def ground_clamp_def move_camera_def Let_def)

lemma flag_zero_iff:
  "flag_x s = 0 \<longleftrightarrow> moveLeft s = moveRight s"
  "flag_z s = 0 \<longleftrightarrow> moveForward s = moveBackward s"
  by (auto simp: flag_x_def flag_z_def Number_def)

lemma step_direction_y: "direction_y s = 0 \<Longrightarrow> direction_y (step mr mf s e) = 0"
proof (cases e)
  case (Frame delta)
  assume d: "direction_y s = 0"
  show ?thesis
  proof (cases "isLocked s")
    case True
    from direction_integrate [OF d, of delta] have "direction_y (integrate_velocity delta s) = 0"
      by (simp add: normalize_flat split: if_splits)
    with True Frame show ?thesis using direction_animate [of s mr mf delta] by simp
  next
    case False
    with d Frame show ?thesis by (simp add: animate_def)
  qed
qed (simp_all add: onKeyDown_def onKeyUp_def)

lemma run_direction_y: "direction_y s = 0 \<Longrightarrow> direction_y (run mr mf evs s) = 0"
  unfolding run_def
  by (induction evs arbitrary: s) (simp_all add: step_direction_y)

lemma reachable_direction_y: "direction_y (run mr mf evs (initial ori)) = 0"
  by (rule run_direction_y) (simp add: initial_def)

text \<open>
  C6. In a locked frame (the y component of \<open>direction\<close> is 0, as in every reachable
  state), the direction computed from the four movement flags has length 1 when the
  forward/backward pair or the left/right pair does not cancel; it is the zero vector when
  both pairs cancel or nothing is pressed. Forward with right gives
  \<open>(1 / sqrt 2, 1 / sqrt 2)\<close>, of length 1.
\<close>

theorem input_direction_normalized:
  assumes "isLocked s" "direction_y s = 0"
  shows "(moveForward s \<noteq> moveBackward s \<or> moveLeft s \<noteq> moveRight s \<longrightarrow>
            direction_length2 (animate mr mf delta s) = 1)
     \<and> (moveForward s = moveBackward s \<and> moveLeft s = moveRight s \<longrightarrow>
            direction_x (animate mr mf delta s) = 0 \<and> direction_z (animate mr mf delta s) = 0)
     \<and> (moveForward s \<and> moveRight s \<and> \<not> moveBackward s \<and> \<not> moveLeft s \<longrightarrow>
            direction_x (animate mr mf delta s) = 1 / sqrt 2
          \<and> direction_z (animate mr mf delta s) = 1 / sqrt 2)
     \<and> direction_y (animate mr mf delta s) = 0"
proof -
  let ?a = "animate mr mf delta s"
  have n: "(direction_x ?a, direction_y ?a, direction_z ?a) = normalize (flag_x s, 0, flag_z s)"
    using direction_integrate [OF assms(2), of delta] direction_animate [OF assms(1), of mr mf delta]
    by simp
  have y: "direction_y ?a = 0" using n by (simp add: normalize_flat split: if_splits)
  have u: "moveForward s \<noteq> moveBackward s \<or> moveLeft s \<noteq> moveRight s \<longrightarrow>
            direction_length2 ?a = 1"
  proof
    assume "moveForward s \<noteq> moveBackward s \<or> moveLeft s \<noteq> moveRight s"
    then have nz: "flag_x s \<noteq> 0 \<or> flag_z s \<noteq> 0" using flag_zero_iff [of s] by blast
    with n have "direction_x ?a = flag_x s / sqrt (flag_x s * flag_x s + flag_z s * flag_z s)"
      and "direction_z ?a = flag_z s / sqrt (flag_x s * flag_x s + flag_z s * flag_z s)"
      by (auto simp: normalize_flat)
    then show "direction_length2 ?a = 1"
      using unit_after_division [OF nz] by (simp only: direction_length2_def)
  qed
  have z: "moveForward s = moveBackward s \<and> moveLeft s = moveRight s \<longrightarrow>
            direction_x ?a = 0 \<and> direction_z ?a = 0"
  proof
    assume "moveForward s = moveBackward s \<and> moveLeft s = moveRight s"
    then have "flag_x s = 0" "flag_z s = 0" using flag_zero_iff [of s] by simp_all
    with n show "direction_x ?a = 0 \<and> direction_z ?a = 0" by (simp add: normalize_flat)
  qed
  have d: "moveForward s \<and> moveRight s \<and> \<not> moveBackward s \<and> \<not> moveLeft s \<longrightarrow>
            direction_x ?a = 1 / sqrt 2 \<and> direction_z ?a = 1 / sqrt 2"
  proof
    assume "moveForward s \<and> moveRight s \<and> \<not> moveBackward s \<and> \<not> moveLeft s"
    then have "flag_x s = 1" "flag_z s = 1" by (simp_all add: flag_x_def flag_z_def Number_def)
    with n show "direction_x ?a = 1 / sqrt 2 \<and> direction_z ?a = 1 / sqrt 2"
      by (simp add: normalize_flat)
  qed
  from u z d y show ?thesis by blast
qed

lemma diagonal_facts:
  "isLocked diagonal" "direction_y diagonal = 0" "moveForward diagonal" "moveRight diagonal"
  "\<not> moveBackward diagonal" "\<not> moveLeft diagonal"
  by (simp_all add: concrete_defs model_defs)

lemma opposed_facts:
  "isLocked opposed" "direction_y opposed = 0" "moveForward opposed = moveBackward opposed"
  "moveLeft opposed = moveRight opposed"
  by (simp_all add: concrete_defs model_defs)

theorem input_direction_normalized_witness:
  "isLocked diagonal \<and> direction_y diagonal = 0
   \<and> moveForward diagonal \<and> moveRight diagonal \<and> \<not> moveBackward diagonal \<and> \<not> moveLeft diagonal
   \<and> direction_length2 (animate controls_moveRight controls_moveForward (1 / 60) diagonal) = 1
   \<and> direction_x (animate controls_moveRight controls_moveForward (1 / 60) diagonal) = 1 / sqrt 2
   \<and> direction_z (animate controls_moveRight controls_moveForward (1 / 60) diagonal) = 1 / sqrt 2
   \<and> isLocked opposed \<and> direction_y opposed = 0
   \<and> moveForward opposed = moveBackward opposed \<and> moveLeft opposed = moveRight opposed
   \<and> direction_x (animate controls_moveRight controls_moveForward (1 / 60) opposed) = 0
   \<and> direction_z (animate controls_moveRight controls_moveForward (1 / 60) opposed) = 0"
  using input_direction_normalized [OF diagonal_facts(1,2),
      of controls_moveRight controls_moveForward "1 / 60"]
    input_direction_normalized [OF opposed_facts(1,2),
      of controls_moveRight controls_moveForward "1 / 60"]
    diagonal_facts opposed_facts
  by blast

lemma spec_direction_eq:
  "spec_direction s = (fst (normalize (flag_x s, 0, flag_z s)),
                       snd (snd (normalize (flag_x s, 0, flag_z s))))"
proof -
  have "sqrt (flag_x s * flag_x s + flag_z s * flag_z s) = 0 \<longleftrightarrow> flag_x s = 0 \<and> flag_z s = 0"
    using sum_squares_eq_zero_iff [of "flag_x s" "flag_z s"] by simp
  moreover have "spec_direction s =
     (if sqrt (flag_x s * flag_x s + flag_z s * flag_z s) = 0 then (0, 0)
      else (flag_x s / sqrt (flag_x s * flag_x s + flag_z s * flag_z s),
            flag_z s / sqrt (flag_x s * flag_x s + flag_z s * flag_z s)))"
    by (simp add: spec_direction_def flag_x_def flag_z_def Number_def Let_def power2_eq_square)
  ultimately show ?thesis by (simp add: normalize_flat)
qed

lemma integrate_velocity_spec:
  assumes "direction_y s = 0"
  shows "(velocity_x (integrate_velocity delta s), velocity_y (integrate_velocity delta s),
          velocity_z (integrate_velocity delta s)) = spec_velocity delta s"
proof -
  have "velocity_x (integrate_velocity delta s) = fst (spec_velocity delta s)"
    using assms
    by (simp add: integrate_velocity_def spec_velocity_def spec_direction_eq Let_def
        flag_x_def flag_z_def speed_def sprintMultiplier_def)
  moreover have "velocity_z (integrate_velocity delta s) = snd (snd (spec_velocity delta s))"
    using assms
    by (simp add: integrate_velocity_def spec_velocity_def spec_direction_eq Let_def
        flag_x_def flag_z_def speed_def sprintMultiplier_def)
  moreover have "velocity_y (integrate_velocity delta s) = fst (snd (spec_velocity delta s))"
    by (simp add: spec_velocity_def Let_def)
  ultimately show ?thesis by (simp add: prod_eq_iff)
qed

text \<open>
  C7. The velocity update of the code equals the reference definition \<open>spec_velocity\<close>
  on all three components. After a whole locked frame the lateral components are those of
  the reference; the vertical one is the reference value, gravity applied whether grounded
  or not, unless the clamp at the end of the frame resets it to 0.
\<close>

theorem velocity_update_refines_spec:
  assumes "direction_y s = 0"
  shows "(velocity_x (integrate_velocity delta s), velocity_y (integrate_velocity delta s),
          velocity_z (integrate_velocity delta s)) = spec_velocity delta s
     \<and> (isLocked s \<longrightarrow>
          velocity_x (animate mr mf delta s) = fst (spec_velocity delta s)
        \<and> velocity_z (animate mr mf delta s) = snd (snd (spec_velocity delta s))
        \<and> velocity_y (animate mr mf delta s)
            = (if unclamped_y mr mf delta s < 2 then 0 else fst (snd (spec_velocity delta s))))"
proof -
  note i = integrate_velocity_spec [OF assms, of delta]
  have "isLocked s \<longrightarrow>
          velocity_x (animate mr mf delta s) = fst (spec_velocity delta s)
        \<and> velocity_z (animate mr mf delta s) = snd (snd (spec_velocity delta s))
        \<and> velocity_y (animate mr mf delta s)
            = (if unclamped_y mr mf delta s < 2 then 0 else fst (snd (spec_velocity delta s)))"
  proof
    assume l: "isLocked s"
    have "velocity_y s - 30 * delta = fst (snd (spec_velocity delta s))"
      by (simp add: spec_velocity_def Let_def)
    then show "velocity_x (animate mr mf delta s) = fst (spec_velocity delta s)
        \<and> velocity_z (animate mr mf delta s) = snd (snd (spec_velocity delta s))
        \<and> velocity_y (animate mr mf delta s)
            = (if unclamped_y mr mf delta s < 2 then 0 else fst (snd (spec_velocity delta s)))"
      using animate_locked [OF l, of mr mf delta] lateral_animate [OF l, of mr mf delta] i [symmetric]
      by simp
  qed
  with i show ?thesis by blast
qed

lemma sprinting_facts:
  "isLocked sprinting" "direction_y sprinting = 0"
  "unclamped_y controls_moveRight controls_moveForward (1 / 50) sprinting < 2"
  by (simp_all add: concrete_defs model_defs Let_def)

lemma sprinting_spec: "spec_velocity (1 / 50) sprinting = (0, - 3 / 5, - 2)"
  by (simp add: spec_velocity_def spec_direction_def concrete_defs model_defs Let_def)

theorem velocity_update_refines_spec_witness:
  "direction_y sprinting = 0 \<and> isLocked sprinting
   \<and> spec_velocity (1 / 50) sprinting = (0, - 3 / 5, - 2)
   \<and> velocity_x (integrate_velocity (1 / 50) sprinting) = 0
   \<and> velocity_y (integrate_velocity (1 / 50) sprinting) = - 3 / 5
   \<and> velocity_z (integrate_velocity (1 / 50) sprinting) = - 2
   \<and> velocity_z (animate controls_moveRight controls_moveForward (1 / 50) sprinting) = - 2
   \<and> velocity_y (animate controls_moveRight controls_moveForward (1 / 50) sprinting) = 0"
  using velocity_update_refines_spec [OF sprinting_facts(2),
      of "1 / 50" controls_moveRight controls_moveForward]
    sprinting_facts
  by (simp add: sprinting_spec)

subsection \<open>The ground, over doubles\<close>

lemma overflow_fin: "\<bar>r\<bar> < overflow_bound \<Longrightarrow> overflow r = Fin r"
  by (simp add: overflow_def abs_less_iff)

lemma overflow_bound_pos: "0 < overflow_bound"
  by (simp add: overflow_bound_def)

lemma overflow_small [simp]: "overflow 0 = Fin 0"
  using overflow_bound_pos by (simp add: overflow_fin)








lemma overflow_numeral [simp]:
  "\<bar>r\<bar> \<le> 1000 \<Longrightarrow> overflow r = Fin r"
  by (rule overflow_fin) (simp add: overflow_bound_def)











end
